theory Spec2Isabelle
  imports Main "HOL-Library.Sublist"
begin

section \<open>Python strings\<close>

text \<open>
  A Python \<^verbatim>\<open>str\<close> is a sequence of Unicode code points, and \<^verbatim>\<open>len\<close> counts code
  points. A string is therefore a list of natural numbers; \<open>str\<close> turns a literal of
  ASCII characters into its code points.
\<close>

type_synonym pystr = "nat list"

definition str :: "string \<Rightarrow> pystr" where
  "str s = map of_char s"

text \<open>
  \<^verbatim>\<open>str.isspace\<close>: the code points CPython treats as whitespace, which are the ones
  \<^verbatim>\<open>strip()\<close> and \<^verbatim>\<open>split()\<close> remove.
\<close>

definition isspace :: "nat \<Rightarrow> bool" where
  "isspace c = (c \<in> set [9, 10, 11, 12, 13, 28, 29, 30, 31, 32, 133, 160, 5760,
                           8232, 8233, 8239, 8287, 12288] \<or> (8192 \<le> c \<and> c \<le> 8202))"

text \<open>
  \<^verbatim>\<open>str.lower\<close> is CPython's \<^verbatim>\<open>unicode_lower\<close>. It reads three tables of the
  interpreter's Unicode database; they are given here as CPython 3.11 has them (Unicode
  14.0.0). The first is the lower-case mapping of single code points: a row
  \<open>(lo, hi, step, target)\<close> maps \<open>lo\<close> to \<open>target\<close>, and every \<open>step\<close>-th code
  point up to \<open>hi\<close> to the code point at the same distance from \<open>target\<close>. The rows
  are in increasing order and do not overlap, so a search stops at the first row that
  starts beyond the code point.
\<close>

definition lower_rows :: "(nat \<times> nat \<times> nat \<times> nat) list" where
  "lower_rows =
    [(65, 90, 1, 97), (192, 214, 1, 224), (216, 222, 1, 248), (256, 302, 2, 257),
     (306, 310, 2, 307), (313, 327, 2, 314), (330, 374, 2, 331), (376, 376, 1, 255),
     (377, 381, 2, 378), (385, 385, 1, 595), (386, 388, 2, 387), (390, 390, 1, 596),
     (391, 391, 1, 392), (393, 394, 1, 598), (395, 395, 1, 396), (398, 398, 1, 477),
     (399, 399, 1, 601), (400, 400, 1, 603), (401, 401, 1, 402), (403, 403, 1, 608),
     (404, 404, 1, 611), (406, 406, 1, 617), (407, 407, 1, 616), (408, 408, 1, 409),
     (412, 412, 1, 623), (413, 413, 1, 626), (415, 415, 1, 629), (416, 420, 2, 417),
     (422, 422, 1, 640), (423, 423, 1, 424), (425, 425, 1, 643), (428, 428, 1, 429),
     (430, 430, 1, 648), (431, 431, 1, 432), (433, 434, 1, 650), (435, 437, 2, 436),
     (439, 439, 1, 658), (440, 440, 1, 441), (444, 444, 1, 445), (452, 452, 1, 454),
     (453, 453, 1, 454), (455, 455, 1, 457), (456, 456, 1, 457), (458, 458, 1, 460),
     (459, 475, 2, 460), (478, 494, 2, 479), (497, 497, 1, 499), (498, 500, 2, 499),
     (502, 502, 1, 405), (503, 503, 1, 447), (504, 542, 2, 505), (544, 544, 1, 414),
     (546, 562, 2, 547), (570, 570, 1, 11365), (571, 571, 1, 572), (573, 573, 1, 410),
     (574, 574, 1, 11366), (577, 577, 1, 578), (579, 579, 1, 384), (580, 580, 1, 649),
     (581, 581, 1, 652), (582, 590, 2, 583), (880, 882, 2, 881), (886, 886, 1, 887),
     (895, 895, 1, 1011), (902, 902, 1, 940), (904, 906, 1, 941), (908, 908, 1, 972),
     (910, 911, 1, 973), (913, 929, 1, 945), (931, 939, 1, 963), (975, 975, 1, 983),
     (984, 1006, 2, 985), (1012, 1012, 1, 952), (1015, 1015, 1, 1016),
     (1017, 1017, 1, 1010), (1018, 1018, 1, 1019), (1021, 1023, 1, 891),
     (1024, 1039, 1, 1104), (1040, 1071, 1, 1072), (1120, 1152, 2, 1121),
     (1162, 1214, 2, 1163), (1216, 1216, 1, 1231), (1217, 1229, 2, 1218),
     (1232, 1326, 2, 1233), (1329, 1366, 1, 1377), (4256, 4293, 1, 11520),
     (4295, 4295, 1, 11559), (4301, 4301, 1, 11565), (5024, 5103, 1, 43888),
     (5104, 5109, 1, 5112), (7312, 7354, 1, 4304), (7357, 7359, 1, 4349),
     (7680, 7828, 2, 7681), (7838, 7838, 1, 223), (7840, 7934, 2, 7841),
     (7944, 7951, 1, 7936), (7960, 7965, 1, 7952), (7976, 7983, 1, 7968),
     (7992, 7999, 1, 7984), (8008, 8013, 1, 8000), (8025, 8031, 2, 8017),
     (8040, 8047, 1, 8032), (8072, 8079, 1, 8064), (8088, 8095, 1, 8080),
     (8104, 8111, 1, 8096), (8120, 8121, 1, 8112), (8122, 8123, 1, 8048),
     (8124, 8124, 1, 8115), (8136, 8139, 1, 8050), (8140, 8140, 1, 8131),
     (8152, 8153, 1, 8144), (8154, 8155, 1, 8054), (8168, 8169, 1, 8160),
     (8170, 8171, 1, 8058), (8172, 8172, 1, 8165), (8184, 8185, 1, 8056),
     (8186, 8187, 1, 8060), (8188, 8188, 1, 8179), (8486, 8486, 1, 969),
     (8490, 8490, 1, 107), (8491, 8491, 1, 229), (8498, 8498, 1, 8526),
     (8544, 8559, 1, 8560), (8579, 8579, 1, 8580), (9398, 9423, 1, 9424),
     (11264, 11311, 1, 11312), (11360, 11360, 1, 11361), (11362, 11362, 1, 619),
     (11363, 11363, 1, 7549), (11364, 11364, 1, 637), (11367, 11371, 2, 11368),
     (11373, 11373, 1, 593), (11374, 11374, 1, 625), (11375, 11375, 1, 592),
     (11376, 11376, 1, 594), (11378, 11378, 1, 11379), (11381, 11381, 1, 11382),
     (11390, 11391, 1, 575), (11392, 11490, 2, 11393), (11499, 11501, 2, 11500),
     (11506, 11506, 1, 11507), (42560, 42604, 2, 42561), (42624, 42650, 2, 42625),
     (42786, 42798, 2, 42787), (42802, 42862, 2, 42803), (42873, 42875, 2, 42874),
     (42877, 42877, 1, 7545), (42878, 42886, 2, 42879), (42891, 42891, 1, 42892),
     (42893, 42893, 1, 613), (42896, 42898, 2, 42897), (42902, 42920, 2, 42903),
     (42922, 42922, 1, 614), (42923, 42923, 1, 604), (42924, 42924, 1, 609),
     (42925, 42925, 1, 620), (42926, 42926, 1, 618), (42928, 42928, 1, 670),
     (42929, 42929, 1, 647), (42930, 42930, 1, 669), (42931, 42931, 1, 43859),
     (42932, 42946, 2, 42933), (42948, 42948, 1, 42900), (42949, 42949, 1, 642),
     (42950, 42950, 1, 7566), (42951, 42953, 2, 42952), (42960, 42960, 1, 42961),
     (42966, 42968, 2, 42967), (42997, 42997, 1, 42998), (65313, 65338, 1, 65345),
     (66560, 66599, 1, 66600), (66736, 66771, 1, 66776), (66928, 66938, 1, 66967),
     (66940, 66954, 1, 66979), (66956, 66962, 1, 66995), (66964, 66965, 1, 67003),
     (68736, 68786, 1, 68800), (71840, 71871, 1, 71872), (93760, 93791, 1, 93792),
     (125184, 125217, 1, 125218)]"

fun lookup_row :: "nat \<Rightarrow> (nat \<times> nat \<times> nat \<times> nat) list \<Rightarrow> nat option" where
  "lookup_row c [] = None"
| "lookup_row c ((lo, hi, step, target) # rows) =
     (if c < lo then None
      else if c \<le> hi \<and> (c - lo) mod step = 0 then Some (target + (c - lo))
      else lookup_row c rows)"

text \<open>
  \<^verbatim>\<open>_PyUnicode_ToLowerFull\<close>: the lower-case form of one code point, which is one code
  point except for U+0130, whose form is U+0069 U+0307. A code point without a row is
  its own lower-case form.
\<close>

definition to_lower_full :: "nat \<Rightarrow> pystr" where
  "to_lower_full c =
     (if c = 304 then [105, 775]
      else case lookup_row c lower_rows of None \<Rightarrow> [c] | Some d \<Rightarrow> [d])"

text \<open>
  The properties Cased and Case_Ignorable, as lists of ranges \<open>(lo, hi)\<close> in
  increasing order.
\<close>

definition cased_ranges :: "(nat \<times> nat) list" where
  "cased_ranges =
    [(65, 90), (97, 122), (170, 170), (181, 181), (186, 186), (192, 214), (216, 246),
     (248, 442), (444, 447), (452, 659), (661, 696), (704, 705), (736, 740), (837, 837),
     (880, 883), (886, 887), (890, 893), (895, 895), (902, 902), (904, 906), (908, 908),
     (910, 929), (931, 1013), (1015, 1153), (1162, 1327), (1329, 1366), (1376, 1416),
     (4256, 4293), (4295, 4295), (4301, 4301), (4304, 4346), (4349, 4351), (5024, 5109),
     (5112, 5117), (7296, 7304), (7312, 7354), (7357, 7359), (7424, 7615), (7680, 7957),
     (7960, 7965), (7968, 8005), (8008, 8013), (8016, 8023), (8025, 8025), (8027, 8027),
     (8029, 8029), (8031, 8061), (8064, 8116), (8118, 8124), (8126, 8126), (8130, 8132),
     (8134, 8140), (8144, 8147), (8150, 8155), (8160, 8172), (8178, 8180), (8182, 8188),
     (8305, 8305), (8319, 8319), (8336, 8348), (8450, 8450), (8455, 8455), (8458, 8467),
     (8469, 8469), (8473, 8477), (8484, 8484), (8486, 8486), (8488, 8488), (8490, 8493),
     (8495, 8500), (8505, 8505), (8508, 8511), (8517, 8521), (8526, 8526), (8544, 8575),
     (8579, 8580), (9398, 9449), (11264, 11492), (11499, 11502), (11506, 11507),
     (11520, 11557), (11559, 11559), (11565, 11565), (42560, 42605), (42624, 42653),
     (42786, 42887), (42891, 42894), (42896, 42954), (42960, 42961), (42963, 42963),
     (42965, 42969), (42997, 42998), (43000, 43002), (43824, 43866), (43868, 43880),
     (43888, 43967), (64256, 64262), (64275, 64279), (65313, 65338), (65345, 65370),
     (66560, 66639), (66736, 66771), (66776, 66811), (66928, 66938), (66940, 66954),
     (66956, 66962), (66964, 66965), (66967, 66977), (66979, 66993), (66995, 67001),
     (67003, 67004), (67456, 67456), (67459, 67461), (67463, 67504), (67506, 67514),
     (68736, 68786), (68800, 68850), (71840, 71903), (93760, 93823), (119808, 119892),
     (119894, 119964), (119966, 119967), (119970, 119970), (119973, 119974),
     (119977, 119980), (119982, 119993), (119995, 119995), (119997, 120003),
     (120005, 120069), (120071, 120074), (120077, 120084), (120086, 120092),
     (120094, 120121), (120123, 120126), (120128, 120132), (120134, 120134),
     (120138, 120144), (120146, 120485), (120488, 120512), (120514, 120538),
     (120540, 120570), (120572, 120596), (120598, 120628), (120630, 120654),
     (120656, 120686), (120688, 120712), (120714, 120744), (120746, 120770),
     (120772, 120779), (122624, 122633), (122635, 122654), (125184, 125251),
     (127280, 127305), (127312, 127337), (127344, 127369)]"

definition case_ignorable_ranges :: "(nat \<times> nat) list" where
  "case_ignorable_ranges =
    [(39, 39), (46, 46), (58, 58), (94, 94), (96, 96), (168, 168), (173, 173), (175, 175),
     (180, 180), (183, 184), (688, 879), (884, 885), (890, 890), (900, 901), (903, 903),
     (1155, 1161), (1369, 1369), (1375, 1375), (1425, 1469), (1471, 1471), (1473, 1474),
     (1476, 1477), (1479, 1479), (1524, 1524), (1536, 1541), (1552, 1562), (1564, 1564),
     (1600, 1600), (1611, 1631), (1648, 1648), (1750, 1757), (1759, 1768), (1770, 1773),
     (1807, 1807), (1809, 1809), (1840, 1866), (1958, 1968), (2027, 2037), (2042, 2042),
     (2045, 2045), (2070, 2093), (2137, 2139), (2184, 2184), (2192, 2193), (2200, 2207),
     (2249, 2306), (2362, 2362), (2364, 2364), (2369, 2376), (2381, 2381), (2385, 2391),
     (2402, 2403), (2417, 2417), (2433, 2433), (2492, 2492), (2497, 2500), (2509, 2509),
     (2530, 2531), (2558, 2558), (2561, 2562), (2620, 2620), (2625, 2626), (2631, 2632),
     (2635, 2637), (2641, 2641), (2672, 2673), (2677, 2677), (2689, 2690), (2748, 2748),
     (2753, 2757), (2759, 2760), (2765, 2765), (2786, 2787), (2810, 2815), (2817, 2817),
     (2876, 2876), (2879, 2879), (2881, 2884), (2893, 2893), (2901, 2902), (2914, 2915),
     (2946, 2946), (3008, 3008), (3021, 3021), (3072, 3072), (3076, 3076), (3132, 3132),
     (3134, 3136), (3142, 3144), (3146, 3149), (3157, 3158), (3170, 3171), (3201, 3201),
     (3260, 3260), (3263, 3263), (3270, 3270), (3276, 3277), (3298, 3299), (3328, 3329),
     (3387, 3388), (3393, 3396), (3405, 3405), (3426, 3427), (3457, 3457), (3530, 3530),
     (3538, 3540), (3542, 3542), (3633, 3633), (3636, 3642), (3654, 3662), (3761, 3761),
     (3764, 3772), (3782, 3782), (3784, 3789), (3864, 3865), (3893, 3893), (3895, 3895),
     (3897, 3897), (3953, 3966), (3968, 3972), (3974, 3975), (3981, 3991), (3993, 4028),
     (4038, 4038), (4141, 4144), (4146, 4151), (4153, 4154), (4157, 4158), (4184, 4185),
     (4190, 4192), (4209, 4212), (4226, 4226), (4229, 4230), (4237, 4237), (4253, 4253),
     (4348, 4348), (4957, 4959), (5906, 5908), (5938, 5939), (5970, 5971), (6002, 6003),
     (6068, 6069), (6071, 6077), (6086, 6086), (6089, 6099), (6103, 6103), (6109, 6109),
     (6155, 6159), (6211, 6211), (6277, 6278), (6313, 6313), (6432, 6434), (6439, 6440),
     (6450, 6450), (6457, 6459), (6679, 6680), (6683, 6683), (6742, 6742), (6744, 6750),
     (6752, 6752), (6754, 6754), (6757, 6764), (6771, 6780), (6783, 6783), (6823, 6823),
     (6832, 6862), (6912, 6915), (6964, 6964), (6966, 6970), (6972, 6972), (6978, 6978),
     (7019, 7027), (7040, 7041), (7074, 7077), (7080, 7081), (7083, 7085), (7142, 7142),
     (7144, 7145), (7149, 7149), (7151, 7153), (7212, 7219), (7222, 7223), (7288, 7293),
     (7376, 7378), (7380, 7392), (7394, 7400), (7405, 7405), (7412, 7412), (7416, 7417),
     (7468, 7530), (7544, 7544), (7579, 7679), (8125, 8125), (8127, 8129), (8141, 8143),
     (8157, 8159), (8173, 8175), (8189, 8190), (8203, 8207), (8216, 8217), (8228, 8228),
     (8231, 8231), (8234, 8238), (8288, 8292), (8294, 8303), (8305, 8305), (8319, 8319),
     (8336, 8348), (8400, 8432), (11388, 11389), (11503, 11505), (11631, 11631),
     (11647, 11647), (11744, 11775), (11823, 11823), (12293, 12293), (12330, 12333),
     (12337, 12341), (12347, 12347), (12441, 12446), (12540, 12542), (40981, 40981),
     (42232, 42237), (42508, 42508), (42607, 42610), (42612, 42621), (42623, 42623),
     (42652, 42655), (42736, 42737), (42752, 42785), (42864, 42864), (42888, 42890),
     (42994, 42996), (43000, 43001), (43010, 43010), (43014, 43014), (43019, 43019),
     (43045, 43046), (43052, 43052), (43204, 43205), (43232, 43249), (43263, 43263),
     (43302, 43309), (43335, 43345), (43392, 43394), (43443, 43443), (43446, 43449),
     (43452, 43453), (43471, 43471), (43493, 43494), (43561, 43566), (43569, 43570),
     (43573, 43574), (43587, 43587), (43596, 43596), (43632, 43632), (43644, 43644),
     (43696, 43696), (43698, 43700), (43703, 43704), (43710, 43711), (43713, 43713),
     (43741, 43741), (43756, 43757), (43763, 43764), (43766, 43766), (43867, 43871),
     (43881, 43883), (44005, 44005), (44008, 44008), (44013, 44013), (64286, 64286),
     (64434, 64450), (65024, 65039), (65043, 65043), (65056, 65071), (65106, 65106),
     (65109, 65109), (65279, 65279), (65287, 65287), (65294, 65294), (65306, 65306),
     (65342, 65342), (65344, 65344), (65392, 65392), (65438, 65439), (65507, 65507),
     (65529, 65531), (66045, 66045), (66272, 66272), (66422, 66426), (67456, 67461),
     (67463, 67504), (67506, 67514), (68097, 68099), (68101, 68102), (68108, 68111),
     (68152, 68154), (68159, 68159), (68325, 68326), (68900, 68903), (69291, 69292),
     (69446, 69456), (69506, 69509), (69633, 69633), (69688, 69702), (69744, 69744),
     (69747, 69748), (69759, 69761), (69811, 69814), (69817, 69818), (69821, 69821),
     (69826, 69826), (69837, 69837), (69888, 69890), (69927, 69931), (69933, 69940),
     (70003, 70003), (70016, 70017), (70070, 70078), (70089, 70092), (70095, 70095),
     (70191, 70193), (70196, 70196), (70198, 70199), (70206, 70206), (70367, 70367),
     (70371, 70378), (70400, 70401), (70459, 70460), (70464, 70464), (70502, 70508),
     (70512, 70516), (70712, 70719), (70722, 70724), (70726, 70726), (70750, 70750),
     (70835, 70840), (70842, 70842), (70847, 70848), (70850, 70851), (71090, 71093),
     (71100, 71101), (71103, 71104), (71132, 71133), (71219, 71226), (71229, 71229),
     (71231, 71232), (71339, 71339), (71341, 71341), (71344, 71349), (71351, 71351),
     (71453, 71455), (71458, 71461), (71463, 71467), (71727, 71735), (71737, 71738),
     (71995, 71996), (71998, 71998), (72003, 72003), (72148, 72151), (72154, 72155),
     (72160, 72160), (72193, 72202), (72243, 72248), (72251, 72254), (72263, 72263),
     (72273, 72278), (72281, 72283), (72330, 72342), (72344, 72345), (72752, 72758),
     (72760, 72765), (72767, 72767), (72850, 72871), (72874, 72880), (72882, 72883),
     (72885, 72886), (73009, 73014), (73018, 73018), (73020, 73021), (73023, 73029),
     (73031, 73031), (73104, 73105), (73109, 73109), (73111, 73111), (73459, 73460),
     (78896, 78904), (92912, 92916), (92976, 92982), (92992, 92995), (94031, 94031),
     (94095, 94111), (94176, 94177), (94179, 94180), (110576, 110579), (110581, 110587),
     (110589, 110590), (113821, 113822), (113824, 113827), (118528, 118573),
     (118576, 118598), (119143, 119145), (119155, 119170), (119173, 119179),
     (119210, 119213), (119362, 119364), (121344, 121398), (121403, 121452),
     (121461, 121461), (121476, 121476), (121499, 121503), (121505, 121519),
     (122880, 122886), (122888, 122904), (122907, 122913), (122915, 122916),
     (122918, 122922), (123184, 123197), (123566, 123566), (123628, 123631),
     (125136, 125142), (125252, 125259), (127995, 127999), (917505, 917505),
     (917536, 917631), (917760, 917999)]"

fun in_ranges :: "nat \<Rightarrow> (nat \<times> nat) list \<Rightarrow> bool" where
  "in_ranges c [] = False"
| "in_ranges c ((lo, hi) # ranges) =
     (if c < lo then False else if c \<le> hi then True else in_ranges c ranges)"

definition is_cased :: "nat \<Rightarrow> bool" where
  "is_cased c = in_ranges c cased_ranges"

definition is_case_ignorable :: "nat \<Rightarrow> bool" where
  "is_case_ignorable c = in_ranges c case_ignorable_ranges"

text \<open>
  \<^verbatim>\<open>handle_capital_sigma\<close>: the capital sigma U+03A3 becomes the final sigma U+03C2
  when the nearest code point before it that is not case-ignorable exists and is cased,
  and the nearest such code point after it does not exist or is not cased; it becomes
  U+03C3 otherwise. \<open>seen\<close> and \<open>rest\<close> are the parts of the string before and after
  the sigma.
\<close>

definition handle_capital_sigma :: "pystr \<Rightarrow> pystr \<Rightarrow> nat" where
  "handle_capital_sigma seen rest =
     (let final_sigma =
            (case dropWhile is_case_ignorable (rev seen) of
               [] \<Rightarrow> False
             | c # _ \<Rightarrow> is_cased c);
          final_sigma =
            (if final_sigma
             then (case dropWhile is_case_ignorable rest of
                     [] \<Rightarrow> True
                   | c # _ \<Rightarrow> \<not> is_cased c)
             else final_sigma)
      in if final_sigma then 962 else 963)"

definition lower_ucs4 :: "pystr \<Rightarrow> nat \<Rightarrow> pystr \<Rightarrow> pystr" where
  "lower_ucs4 seen c rest =
     (if c = 931 then [handle_capital_sigma seen rest] else to_lower_full c)"

text \<open>\<^verbatim>\<open>do_lower\<close>: the loop over the string; \<open>seen\<close> is the part already read.\<close>

fun do_lower :: "pystr \<Rightarrow> pystr \<Rightarrow> pystr" where
  "do_lower seen [] = []"
| "do_lower seen (c # cs) = lower_ucs4 seen c cs @ do_lower (seen @ [c]) cs"

text \<open>
  \<^verbatim>\<open>ascii_upper_or_lower\<close> with \<^verbatim>\<open>Py_TOLOWER\<close>, the path of a string that has only
  ASCII code points; any other string goes through \<^verbatim>\<open>do_lower\<close>.
\<close>

definition ascii_lower :: "nat \<Rightarrow> nat" where
  "ascii_lower c = (if 65 \<le> c \<and> c \<le> 90 then c + 32 else c)"

definition lower :: "pystr \<Rightarrow> pystr" where
  "lower s = (if list_all (\<lambda>c. c < 128) s then map ascii_lower s else do_lower [] s)"

text \<open>\<^verbatim>\<open>s.strip()\<close>: whitespace removed at both ends.\<close>

definition strip :: "pystr \<Rightarrow> pystr" where
  "strip s = rev (dropWhile isspace (rev (dropWhile isspace s)))"

text \<open>\<^verbatim>\<open>s.replace(old, new)\<close> for one-character \<^verbatim>\<open>old\<close> and \<^verbatim>\<open>new\<close>.\<close>

definition replace_cp :: "nat \<Rightarrow> nat \<Rightarrow> pystr \<Rightarrow> pystr" where
  "replace_cp old new s = map (\<lambda>c. if c = old then new else c) s"

text \<open>
  \<^verbatim>\<open>s.split()\<close> without arguments: the maximal runs of non-whitespace, in order.
  \<open>cur\<close> is the run being read.
\<close>

fun split_from :: "pystr \<Rightarrow> pystr \<Rightarrow> pystr list" where
  "split_from cur [] = (if cur = [] then [] else [cur])"
| "split_from cur (c # cs) =
     (if isspace c then (if cur = [] then split_from [] cs else cur # split_from [] cs)
      else split_from (cur @ [c]) cs)"

definition split :: "pystr \<Rightarrow> pystr list" where
  "split s = split_from [] s"

text \<open>\<^verbatim>\<open>w in text\<close> on strings: \<open>w\<close> occurs in \<open>text\<close> as a contiguous run.\<close>

fun str_in :: "pystr \<Rightarrow> pystr \<Rightarrow> bool" where
  "str_in w [] = (w = [])"
| "str_in w (c # cs) = (prefix w (c # cs) \<or> str_in w cs)"

section \<open>Data loaded at start-up\<close>

text \<open>
  \<^verbatim>\<open>DOCS\<close> and \<^verbatim>\<open>MOCK\<close> come from JSON files, so a document, a section and a week
  record are dictionaries in which any key may be absent: a field is \<open>None\<close> when the
  key is missing. The values are the ones of the documented data model (strings, lists
  of sections, lists of strings).
\<close>

record sec =
  sec_loc :: "pystr option"
  sec_text :: "pystr option"

record document =
  doc_title :: "pystr option"
  doc_href :: "pystr option"
  doc_sections :: "sec list option"

text \<open>A week identifier is an integer or a string; Python never finds the two equal.\<close>

datatype ident = IntId int | StrId pystr

record week_record =
  wr_week :: "ident option"
  wr_milestones :: "pystr list option"

record mock =
  mock_weeks :: "week_record list option"

text \<open>
  The kill switch: \<^verbatim>\<open>os.getenv("ASSISTANT_KILLED", "false").lower() == "true"\<close>, where
  the argument is the value of the environment variable, if it is set.
\<close>

definition KILLED :: "pystr option \<Rightarrow> bool" where
  "KILLED env = (lower (case env of None \<Rightarrow> str ''false'' | Some v \<Rightarrow> v) = str ''true'')"

section \<open>Requests, responses, errors\<close>

record AnswerRequest =
  role :: pystr
  question :: pystr
  context_policy :: "pystr option"
  mode :: "pystr option"

record citation =
  cit_title :: pystr
  cit_href :: pystr
  cit_loc :: pystr

record AnswerResponse =
  answer_text :: pystr
  citations :: "citation list"
  socratic_prompts :: "pystr list"
  refusal :: bool

record NextRequest =
  next_role :: pystr
  state :: "pystr \<rightharpoonup> ident"

record ref =
  ref_title :: pystr
  ref_loc :: pystr

record ChecklistResult =
  checklist :: "pystr list"
  refs :: "ref list"

record HealthResult =
  ok :: bool
  service :: pystr
  version :: pystr

text \<open>
  What a handler can raise: the \<^verbatim>\<open>HTTPException\<close> of the kill switch, with its status
  code and detail, a \<^verbatim>\<open>KeyError\<close> for a subscript with a missing key, and an
  \<^verbatim>\<open>IndexError\<close> for a subscript past the end of a list.
\<close>

datatype error = HTTPException nat pystr | KeyError pystr | IndexError

text \<open>\<^verbatim>\<open>d[key]\<close> raises \<^verbatim>\<open>KeyError\<close> on a missing key; \<^verbatim>\<open>d.get(key, default)\<close> does not.\<close>

definition subscript :: "'a option \<Rightarrow> string \<Rightarrow> error + 'a" where
  "subscript v key = (case v of None \<Rightarrow> Inl (KeyError (str key)) | Some x \<Rightarrow> Inr x)"

definition get_or :: "'a option \<Rightarrow> 'a \<Rightarrow> 'a" where
  "get_or v dflt = (case v of None \<Rightarrow> dflt | Some x \<Rightarrow> x)"

section \<open>The health probe\<close>

definition health :: "bool \<Rightarrow> HealthResult" where
  "health killed = \<lparr>ok = \<not> killed, service = str ''assistant-backend'', version = str ''0.1.0''\<rparr>"

section \<open>The answer endpoint\<close>

definition paused :: error where
  "paused = HTTPException 503 (str ''Assistant paused by staff'')"

definition keywords_list :: "pystr list" where
  "keywords_list = [str ''task 1'', str ''week 4'', str ''proposal'', str ''planning document'',
               str ''due'']"

text \<open>The string literals of the three responses.\<close>

definition keyword_answer_text :: pystr where
  "keyword_answer_text =
     str ''Task 1 Part 1 is due in Week 4. It includes the Project Proposal and Planning Document.''"

definition keyword_prompt :: pystr where
  "keyword_prompt = str ''Which client constraints affect your scope before Week 4?''"

definition overlap_prompt :: pystr where
  "overlap_prompt = str ''What evidence from the assessment guide supports your plan?''"

definition authorised_only_text :: pystr where
  "authorised_only_text = str ''I can only answer from authorised files.''"

text \<open>The refusal message has the typographic apostrophe U+2019 (8217) twice.\<close>

definition refusal_text :: pystr where
  "refusal_text =
     str ''I can'' @ [8217] @ str ''t answer that from the unit'' @ [8217]
     @ str ''s authorised files. Try the Assessment Guide v1.0, Section 1.''"

definition refusal_response :: AnswerResponse where
  "refusal_response =
     \<lparr>answer_text = refusal_text, citations = [], socratic_prompts = [], refusal = True\<rparr>"

text \<open>
  The keyword path, once the condition holds: \<^verbatim>\<open>doc = DOCS[0]\<close>,
  \<^verbatim>\<open>sec = doc["sections"][0]\<close>, then the response with \<^verbatim>\<open>doc["title"]\<close>,
  \<^verbatim>\<open>doc["href"]\<close> and \<^verbatim>\<open>sec["loc"]\<close>, each subscript raising in this order.
\<close>

definition keyword_response :: "document \<Rightarrow> error + AnswerResponse" where
  "keyword_response doc =
     (case subscript (doc_sections doc) ''sections'' of
        Inl e \<Rightarrow> Inl e
      | Inr [] \<Rightarrow> Inl IndexError
      | Inr (sec # _) \<Rightarrow>
          (case subscript (doc_title doc) ''title'' of
             Inl e \<Rightarrow> Inl e
           | Inr t \<Rightarrow>
               (case subscript (doc_href doc) ''href'' of
                  Inl e \<Rightarrow> Inl e
                | Inr h \<Rightarrow>
                    (case subscript (sec_loc sec) ''loc'' of
                       Inl e \<Rightarrow> Inl e
                     | Inr l \<Rightarrow>
                         Inr \<lparr>answer_text = keyword_answer_text,
                              citations = [\<lparr>cit_title = t, cit_href = h, cit_loc = l\<rparr>],
                              socratic_prompts = [keyword_prompt],
                              refusal = False\<rparr>))))"

text \<open>
  The overlap fallback. The test of one section:
  \<^verbatim>\<open>text = sec.get("text", "").lower()\<close>, \<^verbatim>\<open>any(w in text for w in q_words)\<close>.
\<close>

definition sec_matches :: "pystr list \<Rightarrow> sec \<Rightarrow> bool" where
  "sec_matches q_words sec =
     (let text = lower (get_or (sec_text sec) []) in list_ex (\<lambda>w. str_in w text) q_words)"

text \<open>The response returned at a matching section.\<close>

definition overlap_response :: "document \<Rightarrow> sec \<Rightarrow> error + AnswerResponse" where
  "overlap_response doc sec =
     (case subscript (doc_title doc) ''title'' of
        Inl e \<Rightarrow> Inl e
      | Inr t \<Rightarrow>
          (case subscript (doc_href doc) ''href'' of
             Inl e \<Rightarrow> Inl e
           | Inr h \<Rightarrow>
               Inr \<lparr>answer_text = get_or (sec_text sec) authorised_only_text,
                    citations = [\<lparr>cit_title = t, cit_href = h,
                                  cit_loc = get_or (sec_loc sec) []\<rparr>],
                    socratic_prompts = [overlap_prompt],
                    refusal = False\<rparr>))"

text \<open>
  The two nested loops; \<open>None\<close> means that the loop ended without returning.
\<close>

fun scan_sections :: "pystr list \<Rightarrow> document \<Rightarrow> sec list \<Rightarrow> (error + AnswerResponse) option" where
  "scan_sections q_words doc [] = None"
| "scan_sections q_words doc (sec # secs) =
     (if sec_matches q_words sec then Some (overlap_response doc sec)
      else scan_sections q_words doc secs)"

fun scan_docs :: "pystr list \<Rightarrow> document list \<Rightarrow> (error + AnswerResponse) option" where
  "scan_docs q_words [] = None"
| "scan_docs q_words (doc # docs) =
     (case scan_sections q_words doc (get_or (doc_sections doc) []) of
        Some r \<Rightarrow> Some r
      | None \<Rightarrow> scan_docs q_words docs)"

text \<open>\<^verbatim>\<open>q = req.question.lower().strip()\<close>\<close>

definition normalize :: "pystr \<Rightarrow> pystr" where
  "normalize s = strip (lower s)"

text \<open>\<^verbatim>\<open>any(k in q for k in keywords)\<close>\<close>

definition keyword_hit :: "pystr \<Rightarrow> bool" where
  "keyword_hit q = list_ex (\<lambda>k. str_in k q) keywords_list"

text \<open>\<^verbatim>\<open>[w for w in q.replace("?", " ").split() if len(w) >= 4]\<close>\<close>

definition q_words_of :: "pystr \<Rightarrow> pystr list" where
  "q_words_of q = filter (\<lambda>w. length w \<ge> 4) (split (replace_cp 63 32 q))"

text \<open>
  The handler of \<^verbatim>\<open>POST /answer\<close>. The globals \<^verbatim>\<open>KILLED\<close> and \<^verbatim>\<open>DOCS\<close> are
  arguments.
\<close>

definition answer :: "bool \<Rightarrow> document list \<Rightarrow> AnswerRequest \<Rightarrow> error + AnswerResponse" where
  "answer killed DOCS req =
     (if killed then Inl paused
      else
        let q = normalize (question req) in
        if keyword_hit q \<and> DOCS \<noteq> [] then keyword_response (DOCS ! 0)
        else
          let q_words = q_words_of q in
          (case scan_docs q_words DOCS of
             Some r \<Rightarrow> r
           | None \<Rightarrow> Inr refusal_response))"

section \<open>The checklist endpoint\<close>

text \<open>\<^verbatim>\<open>str(n)\<close> for an integer: decimal digits, with a minus sign when negative.\<close>

fun digits :: "nat \<Rightarrow> pystr" where
  "digits n = (if n < 10 then [48 + n] else digits (n div 10) @ [48 + n mod 10])"

declare digits.simps [simp del]

definition str_of_int :: "int \<Rightarrow> pystr" where
  "str_of_int i = (if i < 0 then 45 # digits (nat (- i)) else digits (nat i))"

text \<open>
  What \<^verbatim>\<open>f"{week}"\<close> prints: the digits of an integer, a string as it is, and
  \<^verbatim>\<open>None\<close> for the value of a missing key.
\<close>

definition format_week :: "ident option \<Rightarrow> pystr" where
  "format_week week =
     (case week of None \<Rightarrow> str ''None'' | Some (IntId i) \<Rightarrow> str_of_int i | Some (StrId s) \<Rightarrow> s)"

text \<open>
  The loop over \<^verbatim>\<open>MOCK.get("weeks", [])\<close>: \<open>items\<close> stays \<open>[]\<close> until a record with
  the week is found, and the loop breaks there.
\<close>

fun find_items :: "ident option \<Rightarrow> week_record list \<Rightarrow> pystr list" where
  "find_items week [] = []"
| "find_items week (w # ws) =
     (if wr_week w = week then get_or (wr_milestones w) [] else find_items week ws)"

definition no_milestones :: pystr where
  "no_milestones = str ''No milestones found for this week.''"

definition nxt :: "bool \<Rightarrow> mock \<Rightarrow> NextRequest \<Rightarrow> error + ChecklistResult" where
  "nxt killed MOCK req =
     (if killed then Inl paused
      else
        let week = state req (str ''week'');
            items = find_items week (get_or (mock_weeks MOCK) []);
            items = (if items = [] then [no_milestones] else items)
        in Inr \<lparr>checklist = items,
                refs = [\<lparr>ref_title = str ''mock_dates.json'',
                         ref_loc = str ''week:'' @ format_week week\<rparr>]\<rparr>)"

section \<open>The service as a whole\<close>

text \<open>
  The module globals are set when the module is loaded, and the handlers only read
  them. A handler therefore takes the globals and returns them as they were, beside
  its response; \<open>run\<close> serves a sequence of requests one after the other.
\<close>

record globals =
  g_killed :: bool
  g_docs :: "document list"
  g_mock :: mock

datatype request = GetHealth | PostAnswer AnswerRequest | PostNext NextRequest

datatype response =
  HealthBody HealthResult
| AnswerBody "error + AnswerResponse"
| NextBody "error + ChecklistResult"

fun handle :: "globals \<Rightarrow> request \<Rightarrow> response \<times> globals" where
  "handle g GetHealth = (HealthBody (health (g_killed g)), g)"
| "handle g (PostAnswer req) = (AnswerBody (answer (g_killed g) (g_docs g) req), g)"
| "handle g (PostNext req) = (NextBody (nxt (g_killed g) (g_mock g) req), g)"

fun run :: "globals \<Rightarrow> request list \<Rightarrow> response list" where
  "run g [] = []"
| "run g (r # rs) = (case handle g r of (out, g') \<Rightarrow> out # run g' rs)"

section \<open>Example data\<close>

text \<open>
  The corpus of the documented examples, and a request with a given question and the
  default values of the optional fields.
\<close>

definition guide :: document where
  "guide = \<lparr>doc_title = Some (str ''Guide''), doc_href = Some (str ''/g''),
            doc_sections = Some [\<lparr>sec_loc = Some (str ''p.1''), sec_text = Some (str ''...'')\<rparr>]\<rparr>"

definition handbook :: document where
  "handbook = \<lparr>doc_title = Some (str ''Handbook''), doc_href = Some (str ''/h''),
     doc_sections = Some [\<lparr>sec_loc = Some (str ''s.1''), sec_text = Some (str ''Welcome'')\<rparr>,
                          \<lparr>sec_loc = Some (str ''s.2''), sec_text = Some (str ''Reports are Marked weekly'')\<rparr>,
                          \<lparr>sec_loc = Some (str ''s.3''), sec_text = Some (str ''marked again'')\<rparr>]\<rparr>"

definition rubric :: document where
  "rubric = \<lparr>doc_title = Some (str ''Rubric''), doc_href = Some (str ''/r''),
     doc_sections = Some [\<lparr>sec_loc = Some (str ''r.1''), sec_text = Some (str ''How work is marked'')\<rparr>]\<rparr>"

definition ask :: "string \<Rightarrow> AnswerRequest" where
  "ask s = \<lparr>role = str ''student'', question = str s,
            context_policy = Some (str ''authoritative_only''), mode = Some (str ''tutor'')\<rparr>"

text \<open>A request whose question is given by its code points.\<close>

definition ask_points :: "pystr \<Rightarrow> AnswerRequest" where
  "ask_points q = \<lparr>role = str ''student'', question = q,
                   context_policy = Some (str ''authoritative_only''), mode = Some (str ''tutor'')\<rparr>"

text \<open>
  A document with a Greek section text, the capital letters U+039F U+0394 U+039F U+03A3,
  and a document whose section text is the sentence the overlap path names as the
  default of a missing text.
\<close>

definition odos :: document where
  "odos = \<lparr>doc_title = Some (str ''Odos''), doc_href = Some (str ''/o''),
     doc_sections = Some [\<lparr>sec_loc = Some (str ''o.1''), sec_text = Some [927, 916, 927, 931]\<rparr>]\<rparr>"


text \<open>A document whose one section has the refusal message as its text.\<close>

definition mirror :: document where
  "mirror = \<lparr>doc_title = Some (str ''Mirror''), doc_href = Some (str ''/m''),
     doc_sections = Some [\<lparr>sec_loc = Some (str ''m.1''), sec_text = Some refusal_text\<rparr>]\<rparr>"

text \<open>A schedule with week 4 twice and a week without milestones, and a request for a week.\<close>

definition schedule :: mock where
  "schedule = \<lparr>mock_weeks = Some
     [\<lparr>wr_week = Some (IntId 4), wr_milestones = Some [str ''Submit proposal'']\<rparr>,
      \<lparr>wr_week = Some (IntId 4), wr_milestones = Some [str ''Second entry'']\<rparr>,
      \<lparr>wr_week = Some (IntId 5), wr_milestones = Some []\<rparr>]\<rparr>"

definition next_week :: "int \<Rightarrow> NextRequest" where
  "next_week n = \<lparr>next_role = str ''student'', state = [str ''week'' \<mapsto> IntId n]\<rparr>"

section \<open>Facts about the string operations\<close>

lemma str_in_iff_sublist: "str_in w t \<longleftrightarrow> sublist w t"
  by (induction t) (auto simp: sublist_Cons_right)

lemma str_in_append: "str_in w (pre @ w @ suf)"
  by (simp add: str_in_iff_sublist)

lemma lower_Nil [simp]: "lower [] = []"
  by (simp add: lower_def)

text \<open>
  Rows of the lower-case table: the ASCII code points, the apostrophe U+2019, the
  Kelvin sign U+212A and the Greek capitals before the sigma.
\<close>

lemma to_lower_full_ascii: "c < 128 \<Longrightarrow> to_lower_full c = [ascii_lower c]"
  by (simp add: to_lower_full_def lower_rows_def ascii_lower_def)

lemma to_lower_full_apostrophe: "to_lower_full 8217 = [8217]"
  by (simp add: to_lower_full_def lower_rows_def)

lemma to_lower_full_kelvin: "to_lower_full 8490 = [107]"
  by (simp add: to_lower_full_def lower_rows_def)

lemma to_lower_full_greek: "913 \<le> c \<Longrightarrow> c \<le> 929 \<Longrightarrow> to_lower_full c = [c + 32]"
  by (simp add: to_lower_full_def lower_rows_def)

lemma to_lower_full_greek_small: "945 \<le> c \<Longrightarrow> c \<le> 974 \<Longrightarrow> to_lower_full c = [c]"
  by (simp add: to_lower_full_def lower_rows_def)

text \<open>A string without a capital sigma is lower-cased one code point at a time.\<close>

lemma do_lower_no_sigma: "931 \<notin> set s \<Longrightarrow> do_lower seen s = concat (map to_lower_full s)"
  by (induction s arbitrary: seen) (auto simp: lower_ucs4_def)

text \<open>The Kelvin sign lower-cases to the letter k, and a capital sigma that ends a word to
  the final sigma.\<close>

lemma lower_kelvin: "lower [116, 97, 115, 8490, 32, 49] = str ''task 1''"
  by (simp add: str_def lower_def lower_ucs4_def to_lower_full_ascii to_lower_full_kelvin
      ascii_lower_def)

lemma lower_odos: "lower [927, 916, 927, 931] = [959, 948, 959, 962]"
  by (simp add: lower_def lower_ucs4_def to_lower_full_greek handle_capital_sigma_def
      is_cased_def is_case_ignorable_def cased_ranges_def case_ignorable_ranges_def)

lemma lower_odos_small: "lower [959, 948, 959, 962] = [959, 948, 959, 962]"
  by (simp add: lower_def lower_ucs4_def to_lower_full_greek_small)

lemma strip_Nil [simp]: "strip [] = []"
  by (simp add: strip_def)

lemma normalize_Nil [simp]: "normalize [] = []"
  by (simp add: normalize_def)

lemma q_words_of_Nil [simp]: "q_words_of [] = []"
  by (simp add: q_words_of_def split_def replace_cp_def)

lemma keyword_hit_Nil [simp]: "\<not> keyword_hit []"
  by (simp add: keyword_hit_def keywords_list_def str_def)

lemma q_words_length: "w \<in> set (q_words_of q) \<Longrightarrow> 4 \<le> length w"
  by (simp add: q_words_of_def)

text \<open>The definitions that evaluate the string operations on a literal.\<close>

lemmas str_eval = str_def normalize_def strip_def lower_def ascii_lower_def isspace_def
  keyword_hit_def keywords_list_def q_words_of_def split_def replace_cp_def

section \<open>Facts about the overlap scan\<close>

lemma sec_matches_no_words [simp]: "\<not> sec_matches [] s"
  by (simp add: sec_matches_def)

lemma sec_matches_iff:
  "sec_matches ws s \<longleftrightarrow> (\<exists>w\<in>set ws. str_in w (lower (get_or (sec_text s) [])))"
  by (simp add: sec_matches_def list_ex_iff)

lemma sec_matches_sublist:
  "sec_matches ws s \<longleftrightarrow> (\<exists>w\<in>set ws. sublist w (lower (get_or (sec_text s) [])))"
  by (simp add: sec_matches_iff str_in_iff_sublist)

lemma sec_matches_absent_text:
  "sec_text s = None \<Longrightarrow> \<not> sec_matches (q_words_of q) s"
  by (auto simp: sec_matches_iff get_or_def dest: q_words_length)

lemma scan_sections_None:
  "scan_sections ws doc secs = None \<longleftrightarrow> (\<forall>s\<in>set secs. \<not> sec_matches ws s)"
  by (induction secs) auto

lemma scan_sections_first:
  "\<forall>s'\<in>set pre. \<not> sec_matches ws s' \<Longrightarrow> sec_matches ws s \<Longrightarrow>
   scan_sections ws doc (pre @ s # post) = Some (overlap_response doc s)"
  by (induction pre) auto

lemma scan_sections_Some:
  "scan_sections ws doc secs = Some r \<Longrightarrow>
   \<exists>s\<in>set secs. sec_matches ws s \<and> r = overlap_response doc s"
  by (induction secs) (auto split: if_splits)

lemma scan_docs_None:
  "scan_docs ws docs = None \<longleftrightarrow>
   (\<forall>d\<in>set docs. \<forall>s\<in>set (get_or (doc_sections d) []). \<not> sec_matches ws s)"
proof (induction docs)
  case Nil
  then show ?case by simp
next
  case (Cons d docs)
  show ?case
  proof (cases "scan_sections ws d (get_or (doc_sections d) [])")
    case None
    then have "\<forall>s\<in>set (get_or (doc_sections d) []). \<not> sec_matches ws s"
      by (simp add: scan_sections_None)
    with Cons None show ?thesis by simp
  next
    case (Some r)
    from scan_sections_Some [OF Some] Some show ?thesis by auto
  qed
qed

lemma scan_docs_first:
  "\<forall>d'\<in>set pre. \<forall>s\<in>set (get_or (doc_sections d') []). \<not> sec_matches ws s \<Longrightarrow>
   scan_sections ws d (get_or (doc_sections d) []) = Some r \<Longrightarrow>
   scan_docs ws (pre @ d # post) = Some r"
proof (induction pre)
  case Nil
  then show ?case by simp
next
  case (Cons a pre)
  then have "scan_sections ws a (get_or (doc_sections a) []) = None"
    by (simp add: scan_sections_None)
  with Cons show ?case by simp
qed

lemma scan_docs_Some:
  "scan_docs ws docs = Some r \<Longrightarrow>
   \<exists>d\<in>set docs. \<exists>s\<in>set (get_or (doc_sections d) []).
     sec_matches ws s \<and> r = overlap_response d s"
proof (induction docs)
  case Nil
  then show ?case by simp
next
  case (Cons d docs)
  show ?case
  proof (cases "scan_sections ws d (get_or (doc_sections d) [])")
    case None
    with Cons show ?thesis by auto
  next
    case (Some r')
    with Cons.prems have "r' = r" by simp
    with Some scan_sections_Some [of ws d "get_or (doc_sections d) []" r]
    show ?thesis by auto
  qed
qed

lemma overlap_response_Inr:
  "overlap_response d s = Inr r \<Longrightarrow>
   \<not> refusal r \<and> citations r \<noteq> [] \<and> answer_text r = get_or (sec_text s) authorised_only_text"
  by (auto simp: overlap_response_def subscript_def split: option.splits)

lemma keyword_response_Inr:
  "keyword_response d = Inr r \<Longrightarrow>
   \<not> refusal r \<and> citations r \<noteq> [] \<and> answer_text r = keyword_answer_text"
  by (auto simp: keyword_response_def subscript_def split: option.splits list.splits)

lemma keyword_answer_text_neq: "keyword_answer_text \<noteq> refusal_text"
  by (simp add: keyword_answer_text_def refusal_text_def str_def)

section \<open>Facts about the handlers\<close>

lemma answer_question_only:
  "answer killed DOCS req =
   answer killed DOCS \<lparr>role = [], question = question req, context_policy = None, mode = None\<rparr>"
  by (simp add: answer_def)

lemma handle_globals: "snd (handle g r) = g"
  by (cases r) simp_all

lemma run_map: "run g rs = map (\<lambda>r. fst (handle g r)) rs"
proof (induction rs)
  case Nil
  then show ?case by simp
next
  case (Cons r rs)
  obtain out g' where h: "handle g r = (out, g')" by (cases "handle g r")
  with handle_globals [of g r] have "g' = g" by simp
  with h Cons show ?case by simp
qed

lemma answer_cases:
  assumes "answer killed DOCS req = Inr r"
  shows "(\<exists>d. keyword_response d = Inr r) \<or>
         (\<exists>d\<in>set DOCS. \<exists>s\<in>set (get_or (doc_sections d) []).
            sec_matches (q_words_of (normalize (question req))) s \<and> overlap_response d s = Inr r) \<or>
         r = refusal_response"
proof (cases "killed")
  case True
  with assms show ?thesis by (simp add: answer_def)
next
  case False
  show ?thesis
  proof (cases "keyword_hit (normalize (question req)) \<and> DOCS \<noteq> []")
    case True
    with assms \<open>\<not> killed\<close> have "keyword_response (DOCS ! 0) = Inr r"
      by (simp add: answer_def)
    then show ?thesis by blast
  next
    case nokw: False
    show ?thesis
    proof (cases "scan_docs (q_words_of (normalize (question req))) DOCS")
      case None
      with assms \<open>\<not> killed\<close> nokw have "r = refusal_response"
        by (auto simp: answer_def)
      then show ?thesis by simp
    next
      case (Some x)
      with assms \<open>\<not> killed\<close> nokw have "x = Inr r"
        by (auto simp: answer_def)
      moreover from scan_docs_Some [OF Some]
      obtain d s where "d \<in> set DOCS" and "s \<in> set (get_or (doc_sections d) [])"
        and "sec_matches (q_words_of (normalize (question req))) s"
        and "x = overlap_response d s"
        by blast
      ultimately show ?thesis by metis
    qed
  qed
qed

lemma overlap_answer_present:
  assumes "sec_matches (q_words_of q) s" and "overlap_response d s = Inr r"
  shows "sec_text s = Some (answer_text r)"
proof (cases "sec_text s")
  case None
  with sec_matches_absent_text assms(1) show ?thesis by blast
next
  case (Some t)
  with overlap_response_Inr [OF assms(2)] show ?thesis by (simp add: get_or_def)
qed

lemma refusal_text_split:
  "lower refusal_text = (str ''i can'' @ [8217] @ str ''t '') @ str ''answer''
     @ (str '' that from the unit'' @ [8217]
        @ str ''s authorised files. try the assessment guide v1.0, section 1.'')"
  by (simp add: refusal_text_def str_def lower_def lower_ucs4_def to_lower_full_ascii
      to_lower_full_apostrophe ascii_lower_def)

lemma find_items_find:
  "find_items week ws =
   (case find (\<lambda>w. wr_week w = week) ws of None \<Rightarrow> [] | Some w \<Rightarrow> get_or (wr_milestones w) [])"
  by (induction ws) auto

text \<open>Two requests evaluated on the example corpus.\<close>

lemma example_refused:
  "answer False [guide] (ask ''asdf zzzz'') = Inr refusal_response"
  by (simp add: answer_def ask_def guide_def sec_matches_def get_or_def str_eval)


section \<open>The keyword path\<close>

text \<open>
  C1, as amended: when the normalised question contains one of the fixed keywords and
  the corpus is not empty, and its first document has a title, an href and at least one
  section, the first of them with a loc, the answer handler returns the hard-coded
  answer about Task 1 Part 1 and Week 4 with \<open>refusal = False\<close> and exactly one
  citation: the first document's title and href and its first section's loc.
\<close>

theorem keyword_pass_first_section:
  assumes "keyword_hit (normalize (question req))"
    and "DOCS = doc # rest"
    and "doc_sections doc = Some (sec # secs)"
    and "doc_title doc = Some t" and "doc_href doc = Some h" and "sec_loc sec = Some l"
  shows "answer False DOCS req =
         Inr \<lparr>answer_text = str ''Task 1 Part 1 is due in Week 4. It includes the Project Proposal and Planning Document.'',
              citations = [\<lparr>cit_title = t, cit_href = h, cit_loc = l\<rparr>],
              socratic_prompts = [str ''Which client constraints affect your scope before Week 4?''],
              refusal = False\<rparr>"
  using assms
  by (simp add: answer_def keyword_response_def subscript_def keyword_answer_text_def
      keyword_prompt_def)

theorem keyword_pass_first_section_witness:
  "keyword_hit (normalize (question (ask ''When is Task 1 due?''))) \<and>
   answer False [guide] (ask ''When is Task 1 due?'') =
     Inr \<lparr>answer_text = str ''Task 1 Part 1 is due in Week 4. It includes the Project Proposal and Planning Document.'',
          citations = [\<lparr>cit_title = str ''Guide'', cit_href = str ''/g'', cit_loc = str ''p.1''\<rparr>],
          socratic_prompts = [str ''Which client constraints affect your scope before Week 4?''],
          refusal = False\<rparr> \<and>
   keyword_hit (normalize (question (ask_points [116, 97, 115, 8490, 32, 49]))) \<and>
   answer False [guide] (ask_points [116, 97, 115, 8490, 32, 49]) =
     Inr \<lparr>answer_text = str ''Task 1 Part 1 is due in Week 4. It includes the Project Proposal and Planning Document.'',
          citations = [\<lparr>cit_title = str ''Guide'', cit_href = str ''/g'', cit_loc = str ''p.1''\<rparr>],
          socratic_prompts = [str ''Which client constraints affect your scope before Week 4?''],
          refusal = False\<rparr>"
proof -
  have hit: "keyword_hit (normalize (question (ask ''When is Task 1 due?'')))"
    by (simp add: ask_def str_eval)
  have kelvin: "keyword_hit (normalize (question (ask_points [116, 97, 115, 8490, 32, 49])))"
    by (simp add: ask_points_def normalize_def lower_kelvin) (simp add: str_eval)
  from keyword_pass_first_section [OF hit, of "[guide]" guide "[]"
      "\<lparr>sec_loc = Some (str ''p.1''), sec_text = Some (str ''...'')\<rparr>" "[]"
      "str ''Guide''" "str ''/g''" "str ''p.1''"]
    keyword_pass_first_section [OF kelvin, of "[guide]" guide "[]"
      "\<lparr>sec_loc = Some (str ''p.1''), sec_text = Some (str ''...'')\<rparr>" "[]"
      "str ''Guide''" "str ''/g''" "str ''p.1''"]
    hit kelvin
  show ?thesis by (simp add: guide_def)
qed

text \<open>
  C1 as it is written fails: with a keyword in the question and a corpus whose first
  document has no section, the handler raises \<open>IndexError\<close> and returns no result.
\<close>

theorem keyword_pass_empty_sections_counterexample:
  "keyword_hit (normalize (question (ask ''Proposal''))) \<and>
   [guide\<lparr>doc_sections := Some []\<rparr>] \<noteq> [] \<and>
   answer False [guide\<lparr>doc_sections := Some []\<rparr>] (ask ''Proposal'') = Inl IndexError"
proof -
  have hit: "keyword_hit (normalize (question (ask ''Proposal'')))"
    by (simp add: ask_def str_eval)
  then show ?thesis
    by (simp add: answer_def keyword_response_def subscript_def guide_def)
qed

text \<open>
  C6: with the gate open, the answer handler should return a result for every question
  and every corpus whose documents have a title, an href and a list of sections, empty
  or not. It does not: with a keyword in the question and a first document without
  sections, \<^verbatim>\<open>doc["sections"][0]\<close> raises \<open>IndexError\<close>. The overlap scan reads
  the same list with \<^verbatim>\<open>doc.get("sections", [])\<close> and a loop, and tolerates it.
\<close>

theorem keyword_pass_raises_on_empty_sections:
  "answer False
     [\<lparr>doc_title = Some (str ''Guide''), doc_href = Some (str ''/g''), doc_sections = Some []\<rparr>]
     (ask ''When is Task 1 due?'') = Inl IndexError"
proof -
  have hit: "keyword_hit (normalize (question (ask ''When is Task 1 due?'')))"
    by (simp add: ask_def str_eval)
  then show ?thesis
    by (simp add: answer_def keyword_response_def subscript_def)
qed

section \<open>The overlap fallback\<close>

text \<open>
  C2: when the normalised question contains no fixed keyword, the handler returns at
  the first section, documents taken in corpus order and sections in a document's own
  order, whose lower-cased text contains a question word of four or more characters:
  no section of an earlier document and no earlier section of the same document has
  such a word, whatever the later sections and documents hold. The answer is that
  section's text, and the one citation has that document's title and href and that
  section's loc.
\<close>

theorem overlap_first_match:
  assumes "\<not> keyword_hit (normalize (question req))"
    and "ws = q_words_of (normalize (question req))"
    and "DOCS = earlier_docs @ doc # later_docs"
    and "\<forall>d\<in>set earlier_docs. \<forall>s\<in>set (get_or (doc_sections d) []).
           \<forall>w\<in>set ws. \<not> sublist w (lower (get_or (sec_text s) []))"
    and "doc_sections doc = Some (earlier_secs @ sec # later_secs)"
    and "\<forall>s\<in>set earlier_secs. \<forall>w\<in>set ws. \<not> sublist w (lower (get_or (sec_text s) []))"
    and "sec_text sec = Some body" and "w \<in> set ws" and "sublist w (lower body)"
    and "doc_title doc = Some t" and "doc_href doc = Some h"
  shows "answer False DOCS req =
         Inr \<lparr>answer_text = body,
              citations = [\<lparr>cit_title = t, cit_href = h, cit_loc = get_or (sec_loc sec) []\<rparr>],
              socratic_prompts = [str ''What evidence from the assessment guide supports your plan?''],
              refusal = False\<rparr>"
proof -
  have m: "sec_matches ws sec"
    using assms(7-9) by (auto simp: sec_matches_sublist get_or_def)
  have "\<forall>s\<in>set earlier_secs. \<not> sec_matches ws s"
    using assms(6) by (simp add: sec_matches_sublist)
  from scan_sections_first [OF this m]
  have "scan_sections ws doc (get_or (doc_sections doc) []) = Some (overlap_response doc sec)"
    using assms(5) by (simp add: get_or_def)
  moreover have "\<forall>d\<in>set earlier_docs. \<forall>s\<in>set (get_or (doc_sections d) []). \<not> sec_matches ws s"
    using assms(4) by (simp add: sec_matches_sublist)
  ultimately have "scan_docs ws DOCS = Some (overlap_response doc sec)"
    unfolding assms(3) by (rule scan_docs_first [rotated])
  moreover have "overlap_response doc sec =
         Inr \<lparr>answer_text = body,
              citations = [\<lparr>cit_title = t, cit_href = h, cit_loc = get_or (sec_loc sec) []\<rparr>],
              socratic_prompts = [str ''What evidence from the assessment guide supports your plan?''],
              refusal = False\<rparr>"
    using assms(7,10,11)
    by (simp add: overlap_response_def subscript_def get_or_def overlap_prompt_def)
  ultimately show ?thesis
    using assms(1,2) by (simp add: answer_def)
qed

theorem overlap_first_match_witness:
  "\<not> keyword_hit (normalize (question (ask ''How is it marked?''))) \<and>
   q_words_of (normalize (question (ask ''How is it marked?''))) = [str ''marked''] \<and>
   answer False [guide, handbook, rubric] (ask ''How is it marked?'') =
     Inr \<lparr>answer_text = str ''Reports are Marked weekly'',
          citations = [\<lparr>cit_title = str ''Handbook'', cit_href = str ''/h'', cit_loc = str ''s.2''\<rparr>],
          socratic_prompts = [str ''What evidence from the assessment guide supports your plan?''],
          refusal = False\<rparr> \<and>
   answer False [guide, odos] (ask_points [959, 948, 959, 962]) =
     Inr \<lparr>answer_text = [927, 916, 927, 931],
          citations = [\<lparr>cit_title = str ''Odos'', cit_href = str ''/o'', cit_loc = str ''o.1''\<rparr>],
          socratic_prompts = [str ''What evidence from the assessment guide supports your plan?''],
          refusal = False\<rparr>"
proof -
  have nohit: "\<not> keyword_hit (normalize (question (ask ''How is it marked?'')))"
    by (simp add: ask_def str_eval)
  have ws: "[str ''marked''] = q_words_of (normalize (question (ask ''How is it marked?'')))"
    by (simp add: ask_def str_eval)
  have docs: "[guide, handbook, rubric] = [guide] @ handbook # [rubric]"
    by simp
  have secs: "doc_sections handbook =
      Some ([\<lparr>sec_loc = Some (str ''s.1''), sec_text = Some (str ''Welcome'')\<rparr>]
            @ \<lparr>sec_loc = Some (str ''s.2''), sec_text = Some (str ''Reports are Marked weekly'')\<rparr>
            # [\<lparr>sec_loc = Some (str ''s.3''), sec_text = Some (str ''marked again'')\<rparr>])"
    by (simp add: handbook_def)
  have e1: "\<forall>d\<in>set [guide]. \<forall>s\<in>set (get_or (doc_sections d) []).
           \<forall>w\<in>set [str ''marked'']. \<not> sublist w (lower (get_or (sec_text s) []))"
    by (simp add: guide_def get_or_def str_in_iff_sublist [symmetric] str_def lower_def ascii_lower_def)
  have e2: "\<forall>s\<in>set [\<lparr>sec_loc = Some (str ''s.1''), sec_text = Some (str ''Welcome'')\<rparr>].
      \<forall>w\<in>set [str ''marked'']. \<not> sublist w (lower (get_or (sec_text s) []))"
    by (simp add: get_or_def str_in_iff_sublist [symmetric] str_def lower_def ascii_lower_def)
  have hit: "sublist (str ''marked'') (lower (str ''Reports are Marked weekly''))"
    by (simp add: str_in_iff_sublist [symmetric] str_def lower_def ascii_lower_def)
  have body: "sec_text \<lparr>sec_loc = Some (str ''s.2''), sec_text = Some (str ''Reports are Marked weekly'')\<rparr>
      = Some (str ''Reports are Marked weekly'')"
    by simp
  have mem: "str ''marked'' \<in> set [str ''marked'']"
    by simp
  have t: "doc_title handbook = Some (str ''Handbook'')" and h: "doc_href handbook = Some (str ''/h'')"
    by (simp_all add: handbook_def)
  have q': "normalize (question (ask_points [959, 948, 959, 962])) = [959, 948, 959, 962]"
    by (simp add: ask_points_def normalize_def lower_odos_small) (simp add: strip_def isspace_def)
  have nohit': "\<not> keyword_hit (normalize (question (ask_points [959, 948, 959, 962])))"
    unfolding q' by (simp add: keyword_hit_def keywords_list_def str_def)
  have ws': "[[959, 948, 959, 962]] = q_words_of (normalize (question (ask_points [959, 948, 959, 962])))"
    unfolding q' by (simp add: q_words_of_def split_def replace_cp_def isspace_def)
  have docs': "[guide, odos] = [guide] @ odos # []"
    by simp
  have secs': "doc_sections odos =
      Some ([] @ \<lparr>sec_loc = Some (str ''o.1''), sec_text = Some [927, 916, 927, 931]\<rparr> # [])"
    by (simp add: odos_def)
  have e1': "\<forall>d\<in>set [guide]. \<forall>s\<in>set (get_or (doc_sections d) []).
           \<forall>w\<in>set [[959, 948, 959, 962]]. \<not> sublist w (lower (get_or (sec_text s) []))"
    by (simp add: guide_def get_or_def str_in_iff_sublist [symmetric] str_def lower_def ascii_lower_def)
  have e2': "\<forall>s\<in>set []. \<forall>w\<in>set [[959, 948, 959, 962]].
      \<not> sublist w (lower (get_or (sec_text s) []))"
    by simp
  have hit': "sublist [959, 948, 959, 962] (lower [927, 916, 927, 931])"
    by (simp add: lower_odos)
  have body': "sec_text \<lparr>sec_loc = Some (str ''o.1''), sec_text = Some [927, 916, 927, 931]\<rparr>
      = Some [927, 916, 927, 931]"
    by simp
  have mem': "[959, 948, 959, 962] \<in> set [[959, 948, 959, 962]]"
    by simp
  have t': "doc_title odos = Some (str ''Odos'')" and h': "doc_href odos = Some (str ''/o'')"
    by (simp_all add: odos_def)
  from overlap_first_match [OF nohit ws docs e1 secs e2 body mem hit t h]
    overlap_first_match [OF nohit' ws' docs' e1' secs' e2' body' mem' hit' t' h']
    nohit ws [symmetric]
  show ?thesis by (simp add: get_or_def)
qed





section \<open>The refusal\<close>

text \<open>
  C3: when the normalised question contains no fixed keyword, and no question word of
  four or more characters occurs in the lower-cased text of any section of the corpus,
  the handler returns the refusal: \<open>refusal = True\<close>, no citation, no prompt, and the
  fixed message, which points to "Assessment Guide v1.0, Section 1". The empty question
  is refused on every corpus, and every question is refused on the empty corpus.
\<close>

theorem refusal_when_nothing_matches:
  "(\<not> keyword_hit (normalize (question req)) \<and>
    (\<forall>d\<in>set DOCS. \<forall>s\<in>set (get_or (doc_sections d) []).
       \<forall>w\<in>set (q_words_of (normalize (question req))).
         \<not> sublist w (lower (get_or (sec_text s) [])))
    \<longrightarrow> answer False DOCS req =
          Inr \<lparr>answer_text = refusal_text, citations = [], socratic_prompts = [], refusal = True\<rparr>) \<and>
   (question req = []
    \<longrightarrow> answer False DOCS req =
          Inr \<lparr>answer_text = refusal_text, citations = [], socratic_prompts = [], refusal = True\<rparr>) \<and>
   answer False [] req =
     Inr \<lparr>answer_text = refusal_text, citations = [], socratic_prompts = [], refusal = True\<rparr> \<and>
   sublist (str ''Assessment Guide v1.0, Section 1'') refusal_text"
proof (intro conjI impI)
  assume a: "\<not> keyword_hit (normalize (question req)) \<and>
    (\<forall>d\<in>set DOCS. \<forall>s\<in>set (get_or (doc_sections d) []).
       \<forall>w\<in>set (q_words_of (normalize (question req))).
         \<not> sublist w (lower (get_or (sec_text s) [])))"
  then have "scan_docs (q_words_of (normalize (question req))) DOCS = None"
    by (simp add: scan_docs_None sec_matches_sublist)
  with a show "answer False DOCS req =
      Inr \<lparr>answer_text = refusal_text, citations = [], socratic_prompts = [], refusal = True\<rparr>"
    by (simp add: answer_def refusal_response_def)
next
  assume "question req = []"
  moreover have "scan_docs [] DOCS = None"
    by (simp add: scan_docs_None)
  ultimately show "answer False DOCS req =
      Inr \<lparr>answer_text = refusal_text, citations = [], socratic_prompts = [], refusal = True\<rparr>"
    by (simp add: answer_def refusal_response_def)
next
  show "answer False [] req =
      Inr \<lparr>answer_text = refusal_text, citations = [], socratic_prompts = [], refusal = True\<rparr>"
    by (simp add: answer_def refusal_response_def)
next
  have "refusal_text =
      (str ''I can'' @ [8217] @ str ''t answer that from the unit'' @ [8217]
        @ str ''s authorised files. Try the '')
      @ str ''Assessment Guide v1.0, Section 1'' @ str ''.''"
    by (simp add: refusal_text_def str_def)
  then show "sublist (str ''Assessment Guide v1.0, Section 1'') refusal_text"
    using sublist_appendI [of "str ''Assessment Guide v1.0, Section 1''"] by metis
qed

theorem refusal_when_nothing_matches_witness:
  "\<not> keyword_hit (normalize (question (ask ''asdf zzzz''))) \<and>
   q_words_of (normalize (question (ask ''asdf zzzz''))) = [str ''asdf'', str ''zzzz''] \<and>
   answer False [guide] (ask ''asdf zzzz'') =
     Inr \<lparr>answer_text = refusal_text, citations = [], socratic_prompts = [], refusal = True\<rparr> \<and>
   answer False [guide] (ask '''') =
     Inr \<lparr>answer_text = refusal_text, citations = [], socratic_prompts = [], refusal = True\<rparr> \<and>
   keyword_hit (normalize (question (ask ''When is Task 1 due?''))) \<and>
   answer False [] (ask ''When is Task 1 due?'') =
     Inr \<lparr>answer_text = refusal_text, citations = [], socratic_prompts = [], refusal = True\<rparr>"
proof -
  have nohit: "\<not> keyword_hit (normalize (question (ask ''asdf zzzz'')))"
    by (simp add: ask_def str_eval)
  have ws: "q_words_of (normalize (question (ask ''asdf zzzz''))) = [str ''asdf'', str ''zzzz'']"
    by (simp add: ask_def str_eval)
  have nomatch: "\<forall>d\<in>set [guide]. \<forall>s\<in>set (get_or (doc_sections d) []).
       \<forall>w\<in>set (q_words_of (normalize (question (ask ''asdf zzzz'')))).
         \<not> sublist w (lower (get_or (sec_text s) []))"
    unfolding ws
    by (simp add: guide_def get_or_def str_in_iff_sublist [symmetric] str_def lower_def ascii_lower_def)
  have empty: "question (ask '''') = []"
    by (simp add: ask_def str_def)
  have hit: "keyword_hit (normalize (question (ask ''When is Task 1 due?'')))"
    by (simp add: ask_def str_eval)
  from refusal_when_nothing_matches [of "ask ''asdf zzzz''" "[guide]"]
    refusal_when_nothing_matches [of "ask ''''" "[guide]"]
    refusal_when_nothing_matches [of "ask ''When is Task 1 due?''" "[]"]
    nohit ws nomatch empty hit
  show ?thesis by blast
qed


section \<open>The shape of a result\<close>

text \<open>
  C5, as amended: in every result of the answer handler, \<open>refusal\<close> is true exactly
  when there is no citation, and a refusal carries the fixed refusal message. An answer
  that equals the refusal message without being a refusal is the text of a section of
  the corpus.
\<close>

theorem answer_refusal_invariant:
  assumes "answer killed DOCS req = Inr r"
  shows "(refusal r \<longleftrightarrow> citations r = []) \<and>
         (refusal r \<longrightarrow> answer_text r = refusal_text) \<and>
         (answer_text r = refusal_text \<and> \<not> refusal r \<longrightarrow>
            (\<exists>d\<in>set DOCS. \<exists>s\<in>set (get_or (doc_sections d) []). sec_text s = Some refusal_text))"
  using answer_cases [OF assms]
proof (elim disjE exE bexE conjE)
  fix d assume "keyword_response d = Inr r"
  from keyword_response_Inr [OF this] keyword_answer_text_neq show ?thesis by simp
next
  fix d s assume ds: "d \<in> set DOCS" "s \<in> set (get_or (doc_sections d) [])"
    and m: "sec_matches (q_words_of (normalize (question req))) s"
    and o: "overlap_response d s = Inr r"
  from overlap_answer_present [OF m o] have "sec_text s = Some (answer_text r)" .
  with ds have "answer_text r = refusal_text \<longrightarrow>
      (\<exists>d\<in>set DOCS. \<exists>s\<in>set (get_or (doc_sections d) []). sec_text s = Some refusal_text)"
    by metis
  moreover from overlap_response_Inr [OF o] have "\<not> refusal r" and "citations r \<noteq> []"
    by simp_all
  ultimately show ?thesis by blast
next
  assume "r = refusal_response"
  then show ?thesis by (simp add: refusal_response_def)
qed

theorem answer_refusal_invariant_witness:
  "answer False [guide] (ask ''asdf zzzz'') = Inr refusal_response \<and>
   refusal refusal_response \<and> citations refusal_response = [] \<and>
   answer_text refusal_response = refusal_text"
  using answer_refusal_invariant [OF example_refused] example_refused
  by (simp add: refusal_response_def)

text \<open>
  C5 as it is written fails: a section whose text is the refusal message is returned
  as an answer with a citation and \<open>refusal = False\<close>.
\<close>

theorem answer_refusal_text_counterexample:
  "answer False [mirror] (ask ''answer'') =
     Inr \<lparr>answer_text = refusal_text,
          citations = [\<lparr>cit_title = str ''Mirror'', cit_href = str ''/m'', cit_loc = str ''m.1''\<rparr>],
          socratic_prompts = [str ''What evidence from the assessment guide supports your plan?''],
          refusal = False\<rparr>"
proof -
  have nohit: "\<not> keyword_hit (normalize (question (ask ''answer'')))"
    by (simp add: ask_def str_eval)
  have ws: "q_words_of (normalize (question (ask ''answer''))) = [str ''answer'']"
    by (simp add: ask_def str_eval)
  have "str_in (str ''answer'') (lower refusal_text)"
    unfolding refusal_text_split by (rule str_in_append)
  then have "sec_matches [str ''answer''] \<lparr>sec_loc = Some (str ''m.1''), sec_text = Some refusal_text\<rparr>"
    by (simp add: sec_matches_def get_or_def)
  with nohit ws show ?thesis
    by (simp add: answer_def mirror_def get_or_def overlap_response_def subscript_def
        overlap_prompt_def)
qed

section \<open>The checklist\<close>

text \<open>
  C4: for every week identifier and every schedule, the checklist is the milestones
  of the first record whose week equals the identifier; it is the one placeholder "No
  milestones found for this week." when no record has that week or when the first one
  that has it lists no milestone. The refs are always the single entry with title
  "mock_dates.json" and loc "week:" followed by the identifier as a string.
\<close>

theorem nxt_lookup:
  assumes "week = state req (str ''week'')" and "weeks = get_or (mock_weeks MOCK) []"
  shows "nxt False MOCK req =
     Inr \<lparr>checklist =
            (case find (\<lambda>w. wr_week w = week) weeks of
               None \<Rightarrow> [str ''No milestones found for this week.'']
             | Some w \<Rightarrow>
                 (if get_or (wr_milestones w) [] = []
                  then [str ''No milestones found for this week.'']
                  else get_or (wr_milestones w) [])),
          refs = [\<lparr>ref_title = str ''mock_dates.json'',
                   ref_loc = str ''week:'' @ format_week week\<rparr>]\<rparr>"
  using assms
  by (simp add: nxt_def find_items_find no_milestones_def Let_def split: option.splits)

theorem nxt_lookup_witness:
  "nxt False schedule (next_week 4) =
     Inr \<lparr>checklist = [str ''Submit proposal''],
          refs = [\<lparr>ref_title = str ''mock_dates.json'', ref_loc = str ''week:4''\<rparr>]\<rparr> \<and>
   nxt False schedule (next_week 99) =
     Inr \<lparr>checklist = [str ''No milestones found for this week.''],
          refs = [\<lparr>ref_title = str ''mock_dates.json'', ref_loc = str ''week:99''\<rparr>]\<rparr> \<and>
   nxt False schedule (next_week 5) =
     Inr \<lparr>checklist = [str ''No milestones found for this week.''],
          refs = [\<lparr>ref_title = str ''mock_dates.json'', ref_loc = str ''week:5''\<rparr>]\<rparr>"
proof -
  have w: "Some (IntId n) = state (next_week n) (str ''week'')" for n
    by (simp add: next_week_def)
  have ws: "[\<lparr>wr_week = Some (IntId 4), wr_milestones = Some [str ''Submit proposal'']\<rparr>,
      \<lparr>wr_week = Some (IntId 4), wr_milestones = Some [str ''Second entry'']\<rparr>,
      \<lparr>wr_week = Some (IntId 5), wr_milestones = Some []\<rparr>] = get_or (mock_weeks schedule) []"
    by (simp add: schedule_def get_or_def)
  have f: "format_week (Some (IntId 4)) = str ''4''" "format_week (Some (IntId 99)) = str ''99''"
    "format_week (Some (IntId 5)) = str ''5''"
    by (simp_all add: format_week_def str_of_int_def digits.simps str_def)
  from nxt_lookup [OF w ws, of 4] nxt_lookup [OF w ws, of 99] nxt_lookup [OF w ws, of 5] f
  show ?thesis by (simp add: get_or_def str_def)
qed

section \<open>The availability gate\<close>

text \<open>
  C7: when the gate is closed, the answer handler and the checklist handler both fail
  with the 503 exception whose detail is "Assistant paused by staff", whatever the
  corpus, the schedule and the request are; the health probe returns a value for either
  position of the gate, and its \<open>ok\<close> field is the negation of the gate.
\<close>

theorem gate_closed:
  "answer True DOCS req = Inl (HTTPException 503 (str ''Assistant paused by staff'')) \<and>
   nxt True MOCK nreq = Inl (HTTPException 503 (str ''Assistant paused by staff'')) \<and>
   ok (health killed) = (\<not> killed)"
  by (simp add: answer_def nxt_def health_def paused_def)

theorem gate_closed_witness:
  "KILLED (Some (str ''TRUE'')) \<and>
   answer (KILLED (Some (str ''TRUE''))) [guide] (ask ''due'')
     = Inl (HTTPException 503 (str ''Assistant paused by staff'')) \<and>
   nxt (KILLED (Some (str ''TRUE''))) \<lparr>mock_weeks = None\<rparr> \<lparr>next_role = [], state = Map.empty\<rparr>
     = Inl (HTTPException 503 (str ''Assistant paused by staff'')) \<and>
   ok (health (KILLED (Some (str ''TRUE'')))) = False \<and>
   ok (health (KILLED None)) = True"
proof -
  have k: "KILLED (Some (str ''TRUE''))"
    by (simp add: KILLED_def lower_def ascii_lower_def str_def)
  have n: "\<not> KILLED None"
    by (simp add: KILLED_def lower_def ascii_lower_def str_def)
  show ?thesis
    using gate_closed [of "[guide]" "ask ''due''" "\<lparr>mock_weeks = None\<rparr>"
        "\<lparr>next_role = [], state = Map.empty\<rparr>" "True"]
      gate_closed [of "[guide]" "ask ''due''" "\<lparr>mock_weeks = None\<rparr>"
        "\<lparr>next_role = [], state = Map.empty\<rparr>" "False"]
      k n by simp
qed

section \<open>What the answer depends on\<close>

text \<open>
  C8: two requests with the same question get the same result from the answer handler,
  whatever their role, context policy and mode are.
\<close>

theorem answer_same_question:
  "question req1 = question req2 \<Longrightarrow> answer killed DOCS req1 = answer killed DOCS req2"
  by (simp add: answer_def)

theorem answer_same_question_witness:
  "question (ask ''asdf zzzz'')
     = question \<lparr>role = str ''staff'', question = str ''asdf zzzz'', context_policy = None,
                 mode = Some (str ''quiz'')\<rparr> \<and>
   answer False [guide] (ask ''asdf zzzz'')
     = answer False [guide] \<lparr>role = str ''staff'', question = str ''asdf zzzz'',
                              context_policy = None, mode = Some (str ''quiz'')\<rparr>"
proof -
  have q: "question (ask ''asdf zzzz'')
     = question \<lparr>role = str ''staff'', question = str ''asdf zzzz'', context_policy = None,
                 mode = Some (str ''quiz'')\<rparr>"
    by (simp add: ask_def)
  from answer_same_question [OF q] q show ?thesis by simp
qed

text \<open>
  C9: the answer handler is deterministic. In any sequence of requests served one after
  the other, two answer requests with the same question get identical responses,
  wherever they stand in the sequence: the response is the one the handler computes
  from the globals the service started with.
\<close>

theorem answer_deterministic:
  assumes "i < length reqs" and "j < length reqs"
    and "reqs ! i = PostAnswer req" and "reqs ! j = PostAnswer req'"
    and "question req = question req'"
  shows "run g reqs ! i = run g reqs ! j
       \<and> run g reqs ! i = AnswerBody (answer (g_killed g) (g_docs g) req)"
proof -
  have "run g reqs ! i = AnswerBody (answer (g_killed g) (g_docs g) req)"
    using assms(1,3) by (simp add: run_map)
  moreover have "run g reqs ! j = AnswerBody (answer (g_killed g) (g_docs g) req')"
    using assms(2,4) by (simp add: run_map)
  moreover have "answer (g_killed g) (g_docs g) req = answer (g_killed g) (g_docs g) req'"
    using assms(5) answer_question_only [of _ _ req] answer_question_only [of _ _ req']
    by simp
  ultimately show ?thesis by simp
qed

theorem answer_deterministic_witness:
  "run \<lparr>g_killed = False, g_docs = [guide], g_mock = \<lparr>mock_weeks = None\<rparr>\<rparr>
     [PostAnswer (ask ''asdf zzzz''), GetHealth, PostAnswer (ask ''asdf zzzz'')] ! 0
   = run \<lparr>g_killed = False, g_docs = [guide], g_mock = \<lparr>mock_weeks = None\<rparr>\<rparr>
     [PostAnswer (ask ''asdf zzzz''), GetHealth, PostAnswer (ask ''asdf zzzz'')] ! 2"
  using answer_deterministic [of 0
      "[PostAnswer (ask ''asdf zzzz''), GetHealth, PostAnswer (ask ''asdf zzzz'')]" 2
      "ask ''asdf zzzz''" "ask ''asdf zzzz''"
      "\<lparr>g_killed = False, g_docs = [guide], g_mock = \<lparr>mock_weeks = None\<rparr>\<rparr>"]
  by simp

end
